theory Spec2Isabelle
  imports
    Main
    "HOL-Library.Product_Lexorder"
    "HOL-Library.List_Lexorder"
    "HOL-Library.Char_ord"
    "HOL-Library.Multiset"
begin

section \<open>Values read from the data files\<close>

text \<open>
  A calendar date is the triple (year, month, day). Python compares \<open>date\<close> objects
  field by field in that order, which is the lexicographic order on the triple
  (HOL-Library.Product_Lexorder). \<open>date.min\<close> and \<open>date.max\<close> are the two bounds of the
  standard library.
\<close>

type_synonym date = "nat \<times> nat \<times> nat"

definition date_min :: date where
  "date_min = (1, 1, 1)"

definition date_max :: date where
  "date_max = (9999, 12, 31)"

text \<open>
  The values \<open>yaml.safe_load\<close> builds for the core schema: null, booleans, integers,
  strings, dates, timestamps (a date and the time of day, of which only the date is ever
  read), sequences and mappings. A mapping is the list of its items in document order.
  Floats, binary strings and sets are left out: no function below distinguishes them
  from an integer that is not zero.
\<close>

datatype yaml =
    YNull
  | YBool bool
  | YInt int
  | YStr string
  | YDate date
  | YDateTime date nat
  | YSeq "yaml list"
  | YMap "(yaml \<times> yaml) list"

text \<open>The exceptions that the functions below let escape.\<close>

datatype py_exn = AttributeError | TypeError | ReadError string

text \<open>Python's truth value of a loaded value, as \<open>x or default\<close> tests it.\<close>

fun truthy :: "yaml \<Rightarrow> bool" where
  "truthy YNull = False"
| "truthy (YBool b) = b"
| "truthy (YInt i) = (i \<noteq> 0)"
| "truthy (YStr s) = (s \<noteq> [])"
| "truthy (YDate d) = True"
| "truthy (YDateTime d t) = True"
| "truthy (YSeq xs) = (xs \<noteq> [])"
| "truthy (YMap kvs) = (kvs \<noteq> [])"

text \<open>\<open>d.get(key)\<close> on a dict with string key: \<open>None\<close> when the key is missing.\<close>

definition dict_get :: "(yaml \<times> yaml) list \<Rightarrow> string \<Rightarrow> yaml" where
  "dict_get kvs k = (case map_of kvs (YStr k) of None \<Rightarrow> YNull | Some v \<Rightarrow> v)"

text \<open>
  \<open>obj.get(key, default)\<close> on any loaded value: only a mapping has the method, every
  other value raises \<open>AttributeError\<close>.
\<close>

fun py_get :: "yaml \<Rightarrow> string \<Rightarrow> yaml \<Rightarrow> py_exn + yaml" where
  "py_get (YMap kvs) k dflt = Inr (case map_of kvs (YStr k) of None \<Rightarrow> dflt | Some v \<Rightarrow> v)"
| "py_get v k dflt = Inl AttributeError"

text \<open>
  \<open>for x in obj\<close>: a sequence yields its items, a mapping its keys, a string its
  characters; the other values are not iterable and raise \<open>TypeError\<close>.
\<close>

fun py_iter :: "yaml \<Rightarrow> py_exn + yaml list" where
  "py_iter (YSeq xs) = Inr xs"
| "py_iter (YMap kvs) = Inr (map fst kvs)"
| "py_iter (YStr s) = Inr (map (\<lambda>c. YStr [c]) s)"
| "py_iter v = Inl TypeError"

section \<open>Divisions and diagnostics\<close>

record 'p Division =
  id' :: string
  "file" :: 'p
  parent :: "string option"
  from_date :: "date option"
  to_date :: "date option"
  base_id :: string
  raw :: "(yaml \<times> yaml) list"

text \<open>
  The context string of a normalization message: \<open>f"{path} ({id})"\<close> in the loader and
  \<open>f"{file} ({id}) {field}"\<close> in the lineage check.
\<close>

datatype 'p msg_context = DivCtx 'p string | RelCtx 'p string string

text \<open>
  One constructor per message the program appends to \<open>errors\<close>, carrying the values the
  f-string interpolates, in the order of the source. \<open>render\<close> below gives the text.
\<close>

datatype 'p error =
    E_date_type "'p msg_context" yaml
  | E_date_invalid "'p msg_context" string string
  | E_parent_type "'p msg_context" yaml
  | E_rel_dict "'p msg_context" yaml
  | E_rel_item "'p msg_context" yaml
  | E_rel_type "'p msg_context" yaml
  | E_yaml 'p string
  | E_missing_id 'p yaml
  | E_duplicate 'p string 'p
  | E_missing_parent 'p string
  | E_dangling_parent 'p string string
  | E_inverted 'p string date date
  | E_overlap string 'p string date date
  | E_unknown 'p string string string
  | E_mismatch 'p string string string string

section \<open>Field normalization\<close>

text \<open>
  \<open>parse_date\<close>. The parameter \<open>fromiso\<close> stands for \<open>date.fromisoformat\<close> of the standard
  library: \<open>Inr\<close> the date, or \<open>Inl\<close> the text of the \<open>ValueError\<close>.
\<close>

fun parse_date ::
  "(string \<Rightarrow> string + date) \<Rightarrow> yaml \<Rightarrow> 'p msg_context \<Rightarrow> 'p error list \<Rightarrow> date option \<times> 'p error list"
where
  "parse_date fromiso YNull ctx errors = (None, errors)"
| "parse_date fromiso (YDateTime d t) ctx errors = (Some d, errors)"
| "parse_date fromiso (YDate d) ctx errors = (Some d, errors)"
| "parse_date fromiso (YStr s) ctx errors =
     (case fromiso s of
        Inr d \<Rightarrow> (Some d, errors)
      | Inl exc \<Rightarrow> (None, errors @ [E_date_invalid ctx s exc]))"
| "parse_date fromiso v ctx errors = (None, errors @ [E_date_type ctx v])"

fun normalize_parent ::
  "yaml \<Rightarrow> 'p msg_context \<Rightarrow> 'p error list \<Rightarrow> string option \<times> 'p error list"
where
  "normalize_parent YNull ctx errors = (None, errors)"
| "normalize_parent (YBool b) ctx errors = (Some (if b then ''YES'' else ''NO''), errors)"
| "normalize_parent (YStr s) ctx errors = (Some s, errors)"
| "normalize_parent v ctx errors = (None, errors @ [E_parent_type ctx v])"

text \<open>The loop of \<open>normalize_relation\<close> over the items, with the list \<open>ids\<close> it builds.\<close>

fun normalize_items ::
  "yaml list \<Rightarrow> 'p msg_context \<Rightarrow> string list \<Rightarrow> 'p error list \<Rightarrow> string list \<times> 'p error list"
where
  "normalize_items [] ctx ids errors = (ids, errors)"
| "normalize_items (item # rest) ctx ids errors =
     (case item of
        YStr s \<Rightarrow> normalize_items rest ctx (ids @ [s]) errors
      | YMap kvs \<Rightarrow>
          (case map_of kvs (YStr ''id'') of
             Some (YStr s) \<Rightarrow> normalize_items rest ctx (ids @ [s]) errors
           | _ \<Rightarrow> normalize_items rest ctx ids (errors @ [E_rel_dict ctx item]))
      | _ \<Rightarrow> normalize_items rest ctx ids (errors @ [E_rel_item ctx item]))"

fun normalize_relation ::
  "yaml \<Rightarrow> 'p msg_context \<Rightarrow> 'p error list \<Rightarrow> string list \<times> 'p error list"
where
  "normalize_relation YNull ctx errors = ([], errors)"
| "normalize_relation (YSeq xs) ctx errors = normalize_items xs ctx [] errors"
| "normalize_relation v ctx errors = ([], errors @ [E_rel_type ctx v])"

section \<open>The record loader\<close>

text \<open>\<open>s.rsplit(":", 1)[0]\<close>: the text before the last colon, or all of it.\<close>

definition rsplit_colon_head :: "string \<Rightarrow> string" where
  "rsplit_colon_head s =
     (if CHR '':'' \<in> set s then rev (tl (dropWhile (\<lambda>c. c \<noteq> CHR '':'') (rev s))) else s)"

text \<open>
  What reading and loading one file gives: the read fails with an exception that is not
  a \<open>YAMLError\<close> (it escapes), the parser raises a \<open>YAMLError\<close> (its text), or a value.
\<close>

datatype file_content = Unreadable py_exn | YAMLError string | Loaded yaml

text \<open>
  The directory: whether it exists, the paths \<open>rglob("*.yaml")\<close> yields, in the order
  the file system gives them, and the content of each.
\<close>

record 'p dataset =
  dir_exists :: bool
  listing :: "'p list"
  content :: "'p \<Rightarrow> file_content"

text \<open>The inner loop of \<open>collect_divisions\<close>, over the blocks of one file.\<close>

fun collect_blocks ::
  "(string \<Rightarrow> string + date) \<Rightarrow> 'p \<Rightarrow> yaml list \<Rightarrow> (string \<times> 'p Division) list \<Rightarrow>
   'p error list \<Rightarrow> py_exn + ((string \<times> 'p Division) list \<times> 'p error list)"
where
  "collect_blocks fromiso yaml_path [] divisions errors = Inr (divisions, errors)"
| "collect_blocks fromiso yaml_path (block # rest) divisions errors =
     (case block of
        YMap kvs \<Rightarrow>
          (case dict_get kvs ''id'' of
             YStr div_id \<Rightarrow>
               (case map_of divisions div_id of
                  Some orig \<Rightarrow>
                    collect_blocks fromiso yaml_path rest divisions
                      (errors @ [E_duplicate yaml_path div_id (file orig)])
                | None \<Rightarrow>
                    (let (from_d, errors1) =
                           parse_date fromiso (dict_get kvs ''from'') (DivCtx yaml_path div_id) errors;
                         (to_d, errors2) =
                           parse_date fromiso (dict_get kvs ''to'') (DivCtx yaml_path div_id) errors1;
                         (par, errors3) =
                           normalize_parent (dict_get kvs ''parent'') (DivCtx yaml_path div_id) errors2
                     in collect_blocks fromiso yaml_path rest
                          (divisions @
                            [(div_id,
                              \<lparr>id' = div_id, file = yaml_path, parent = par, from_date = from_d,
                               to_date = to_d, base_id = rsplit_colon_head div_id, raw = kvs\<rparr>)])
                          errors3))
           | _ \<Rightarrow> collect_blocks fromiso yaml_path rest divisions (errors @ [E_missing_id yaml_path block]))
      | _ \<Rightarrow> Inl AttributeError)"

text \<open>The outer loop, over the sorted paths.\<close>

fun collect_files ::
  "(string \<Rightarrow> string + date) \<Rightarrow> ('p \<Rightarrow> file_content) \<Rightarrow> 'p list \<Rightarrow> (string \<times> 'p Division) list \<Rightarrow>
   'p error list \<Rightarrow> py_exn + ((string \<times> 'p Division) list \<times> 'p error list)"
where
  "collect_files fromiso load [] divisions errors = Inr (divisions, errors)"
| "collect_files fromiso load (yaml_path # rest) divisions errors =
     (case load yaml_path of
        Unreadable e \<Rightarrow> Inl e
      | YAMLError exc \<Rightarrow> collect_files fromiso load rest divisions (errors @ [E_yaml yaml_path exc])
      | Loaded v \<Rightarrow>
          (case py_get (if truthy v then v else YMap []) ''divisions'' (YSeq []) of
             Inl e \<Rightarrow> Inl e
           | Inr bl \<Rightarrow>
               (case py_iter (if truthy bl then bl else YSeq []) of
                  Inl e \<Rightarrow> Inl e
                | Inr blocks \<Rightarrow>
                    (case collect_blocks fromiso yaml_path blocks divisions errors of
                       Inl e \<Rightarrow> Inl e
                     | Inr (divisions', errors') \<Rightarrow>
                         collect_files fromiso load rest divisions' errors'))))"

definition collect_divisions ::
  "(string \<Rightarrow> string + date) \<Rightarrow> ('p::linorder) dataset \<Rightarrow> 'p error list \<Rightarrow>
   py_exn + ((string \<times> 'p Division) list \<times> 'p error list)"
where
  "collect_divisions fromiso country_root errors =
     collect_files fromiso (content country_root) (sort (listing country_root)) [] errors"

section \<open>The three validators\<close>

fun parent_links_loop ::
  "string set \<Rightarrow> 'p Division list \<Rightarrow> 'p error list \<Rightarrow> 'p error list"
where
  "parent_links_loop valid_ids [] errors = errors"
| "parent_links_loop valid_ids (d # rest) errors =
     (case parent d of
        None \<Rightarrow> parent_links_loop valid_ids rest (errors @ [E_missing_parent (file d) (id' d)])
      | Some p \<Rightarrow>
          if p \<noteq> ''NO'' \<and> p \<notin> valid_ids
          then parent_links_loop valid_ids rest (errors @ [E_dangling_parent (file d) (id' d) p])
          else parent_links_loop valid_ids rest errors)"

definition validate_parent_links ::
  "(string \<times> 'p Division) list \<Rightarrow> 'p error list \<Rightarrow> 'p error list"
where
  "validate_parent_links divisions errors =
     parent_links_loop (set (map fst divisions)) (map snd divisions) errors"

text \<open>\<open>groups.setdefault(base, []).append(d)\<close> on the insertion-ordered dict \<open>groups\<close>.\<close>

fun setdefault_append ::
  "(string \<times> 'p Division list) list \<Rightarrow> string \<Rightarrow> 'p Division \<Rightarrow> (string \<times> 'p Division list) list"
where
  "setdefault_append [] base d = [(base, [d])]"
| "setdefault_append ((k, ds) # groups) base d =
     (if k = base then (k, ds @ [d]) # groups else (k, ds) # setdefault_append groups base d)"

text \<open>The first loop of \<open>validate_dates\<close>: grouping and the check of each range.\<close>

fun group_loop ::
  "'p Division list \<Rightarrow> (string \<times> 'p Division list) list \<Rightarrow> 'p error list \<Rightarrow>
   (string \<times> 'p Division list) list \<times> 'p error list"
where
  "group_loop [] groups errors = (groups, errors)"
| "group_loop (d # rest) groups errors =
     group_loop rest (setdefault_append groups (base_id d) d)
       (case (from_date d, to_date d) of
          (Some f, Some t) \<Rightarrow>
            if f > t then errors @ [E_inverted (file d) (id' d) f t] else errors
        | _ \<Rightarrow> errors)"

definition sort_key_of :: "'p Division \<Rightarrow> date \<times> date" where
  "sort_key_of d =
     (case from_date d of None \<Rightarrow> date_min | Some f \<Rightarrow> f,
      case to_date d of None \<Rightarrow> date_max | Some t \<Rightarrow> t)"

text \<open>
  The walk over one sorted group. It returns the errors together with the final value of
  \<open>last_to\<close>, so that the running value can be observed.
\<close>

fun walk_subset ::
  "string \<Rightarrow> 'p Division list \<Rightarrow> date option \<Rightarrow> 'p error list \<Rightarrow> date option \<times> 'p error list"
where
  "walk_subset base [] last_to errors = (last_to, errors)"
| "walk_subset base (d # rest) last_to errors =
     walk_subset base rest
       (case to_date d of Some t \<Rightarrow> Some t | None \<Rightarrow> Some date_max)
       (case (last_to, from_date d) of
          (Some l, Some f) \<Rightarrow>
            if f \<le> l then errors @ [E_overlap base (file d) (id' d) f l] else errors
        | _ \<Rightarrow> errors)"

fun overlap_loop ::
  "(string \<times> 'p Division list) list \<Rightarrow> 'p error list \<Rightarrow> 'p error list"
where
  "overlap_loop [] errors = errors"
| "overlap_loop ((base, subset') # groups) errors =
     overlap_loop groups (snd (walk_subset base (sort_key sort_key_of subset') None errors))"

definition validate_dates ::
  "(string \<times> 'p Division) list \<Rightarrow> 'p error list \<Rightarrow> 'p error list"
where
  "validate_dates divisions errors =
     (let (groups, errors1) = group_loop (map snd divisions) [] errors
      in overlap_loop groups errors1)"

text \<open>The loop of \<open>check_relation\<close> over the identifiers of the source's field.\<close>

fun check_targets ::
  "(string \<times> 'p Division) list \<Rightarrow> 'p Division \<Rightarrow> string \<Rightarrow> string \<Rightarrow> string list \<Rightarrow>
   'p error list \<Rightarrow> 'p error list"
where
  "check_targets divisions source field counterpart [] errors = errors"
| "check_targets divisions source field counterpart (target_id # rest) errors =
     (case map_of divisions target_id of
        None \<Rightarrow>
          check_targets divisions source field counterpart rest
            (errors @ [E_unknown (file source) (id' source) field target_id])
      | Some target \<Rightarrow>
          (let (other_ids, errors1) =
                 normalize_relation (dict_get (raw target) counterpart)
                   (RelCtx (file target) (id' target) counterpart) errors
           in check_targets divisions source field counterpart rest
                (if id' source \<notin> set other_ids
                 then errors1 @ [E_mismatch (file source) (id' source) field target_id counterpart]
                 else errors1)))"

definition check_relation ::
  "(string \<times> 'p Division) list \<Rightarrow> 'p Division \<Rightarrow> string \<Rightarrow> string \<Rightarrow> 'p error list \<Rightarrow> 'p error list"
where
  "check_relation divisions source field counterpart errors =
     (let (ids, errors1) =
            normalize_relation (dict_get (raw source) field)
              (RelCtx (file source) (id' source) field) errors
      in check_targets divisions source field counterpart ids errors1)"

fun lineage_loop ::
  "(string \<times> 'p Division) list \<Rightarrow> 'p Division list \<Rightarrow> 'p error list \<Rightarrow> 'p error list"
where
  "lineage_loop divisions [] errors = errors"
| "lineage_loop divisions (d # rest) errors =
     lineage_loop divisions rest
       (check_relation divisions d ''became'' ''was''
          (check_relation divisions d ''was'' ''became'' errors))"

definition validate_lineage ::
  "(string \<times> 'p Division) list \<Rightarrow> 'p error list \<Rightarrow> 'p error list"
where
  "validate_lineage divisions errors = lineage_loop divisions (map snd divisions) errors"

section \<open>Reporting\<close>

text \<open>\<open>str(n)\<close> of a natural number and \<open>str(d)\<close> of a date (\<open>YYYY-MM-DD\<close>).\<close>

fun str_nat :: "nat \<Rightarrow> string" where
  "str_nat n =
     (if n < 10 then [char_of (48 + n)] else str_nat (n div 10) @ [char_of (48 + n mod 10)])"

definition zero_pad :: "nat \<Rightarrow> string \<Rightarrow> string" where
  "zero_pad w s = replicate (w - length s) (CHR ''0'') @ s"

definition str_date :: "date \<Rightarrow> string" where
  "str_date d =
     (case d of (y, m, dd) \<Rightarrow>
        zero_pad 4 (str_nat y) @ ''-'' @ zero_pad 2 (str_nat m) @ ''-'' @ zero_pad 2 (str_nat dd))"

text \<open>\<open>type(value).__name__\<close>.\<close>

fun type_name :: "yaml \<Rightarrow> string" where
  "type_name YNull = ''NoneType''"
| "type_name (YBool b) = ''bool''"
| "type_name (YInt i) = ''int''"
| "type_name (YStr s) = ''str''"
| "type_name (YDate d) = ''date''"
| "type_name (YDateTime d t) = ''datetime''"
| "type_name (YSeq xs) = ''list''"
| "type_name (YMap kvs) = ''dict''"

definition quoted :: "string \<Rightarrow> string" where
  "quoted s = [CHR 0x27] @ s @ [CHR 0x27]"

text \<open>
  The text of each message. \<open>path_str\<close> is \<open>str\<close> on a path and \<open>repr\<close> is Python's
  \<open>repr\<close> on a loaded value; both belong to the language, not to the program.
\<close>

fun context_str :: "('p \<Rightarrow> string) \<Rightarrow> 'p msg_context \<Rightarrow> string" where
  "context_str path_str (DivCtx p i) = path_str p @ '' ('' @ i @ '')''"
| "context_str path_str (RelCtx p i f) = path_str p @ '' ('' @ i @ '') '' @ f"

fun render :: "('p \<Rightarrow> string) \<Rightarrow> (yaml \<Rightarrow> string) \<Rightarrow> 'p error \<Rightarrow> string" where
  "render path_str repr (E_date_type ctx v) =
     context_str path_str ctx @ '': expected ISO date string or null, got '' @ repr v"
| "render path_str repr (E_date_invalid ctx s exc) =
     context_str path_str ctx @ '': invalid date '' @ quoted s @ '': '' @ exc"
| "render path_str repr (E_parent_type ctx v) =
     context_str path_str ctx @ '': parent must be string or null, got '' @ repr v"
| "render path_str repr (E_rel_dict ctx item) =
     context_str path_str ctx @ '': relation dict missing string '' @ quoted ''id'' @ '' field: ''
       @ repr item"
| "render path_str repr (E_rel_item ctx item) =
     context_str path_str ctx @ '': expected string or mapping with id, got '' @ repr item"
| "render path_str repr (E_rel_type ctx v) =
     context_str path_str ctx @ '': expected list, got '' @ type_name v"
| "render path_str repr (E_yaml p exc) = path_str p @ '': failed to parse YAML: '' @ exc"
| "render path_str repr (E_missing_id p block) =
     path_str p @ '': division missing string id: '' @ repr block"
| "render path_str repr (E_duplicate p i orig) =
     path_str p @ '': duplicate division id '' @ quoted i @ '' also defined in '' @ path_str orig"
| "render path_str repr (E_missing_parent f i) =
     path_str f @ '' ('' @ i @ ''): missing parent reference''"
| "render path_str repr (E_dangling_parent f i p) =
     path_str f @ '' ('' @ i @ ''): parent '' @ quoted p @ '' not found in dataset''"
| "render path_str repr (E_inverted f i fd td) =
     path_str f @ '' ('' @ i @ ''): from date '' @ str_date fd @ '' is after to date ''
       @ str_date td"
| "render path_str repr (E_overlap base f i fd l) =
     ''Timeline overlap for '' @ base @ '': '' @ path_str f @ '' ('' @ i @ '') starts ''
       @ str_date fd @ '' before previous ended '' @ str_date l"
| "render path_str repr (E_unknown f i field t) =
     path_str f @ '' ('' @ i @ ''): '' @ field @ '' references unknown id '' @ quoted t"
| "render path_str repr (E_mismatch f i field t c) =
     ''Lineage mismatch: '' @ path_str f @ '' ('' @ i @ '') '' @ field @ '' -> '' @ t
       @ '' without reciprocal '' @ c"

section \<open>The program\<close>

text \<open>
  The four passes of \<open>main\<close> on one shared error list that starts empty: the loader,
  then the parent, date and lineage validators, in this order.
\<close>

definition run_passes ::
  "(string \<Rightarrow> string + date) \<Rightarrow> ('p::linorder) dataset \<Rightarrow>
   py_exn + ((string \<times> 'p Division) list \<times> 'p error list)"
where
  "run_passes fromiso ds =
     (case collect_divisions fromiso ds [] of
        Inl e \<Rightarrow> Inl e
      | Inr (divisions, errors) \<Rightarrow>
          Inr (divisions,
               validate_lineage divisions
                 (validate_dates divisions (validate_parent_links divisions errors))))"

text \<open>
  \<open>main\<close>: what it writes to the standard output, what it writes to the error stream,
  and the status it returns; \<open>Inl\<close> when an exception escapes.
\<close>

definition main ::
  "(string \<Rightarrow> string + date) \<Rightarrow> ('p \<Rightarrow> string) \<Rightarrow> (yaml \<Rightarrow> string) \<Rightarrow> ('p::linorder) \<Rightarrow>
   'p dataset \<Rightarrow> py_exn + (string list \<times> string list \<times> int)"
where
  "main fromiso path_str repr country_path ds =
     (if \<not> dir_exists ds
      then Inr ([], [''Country directory not found: '' @ path_str country_path], 2)
      else
        (case run_passes fromiso ds of
           Inl e \<Rightarrow> Inl e
         | Inr (divisions, errors) \<Rightarrow>
             if errors \<noteq> []
             then Inr ([],
                       ''Schema lint found issues:''
                         # map (\<lambda>issue. '' - '' @ render path_str repr issue) errors,
                       1)
             else Inr ([''OK: '' @ str_nat (length divisions) @ '' divisions validated in ''
                          @ path_str country_path],
                       [], 0)))"

section \<open>The loops read as list functions\<close>

text \<open>
  Each loop above threads the error list through its iterations. The functions of this
  section give, for one iteration, the errors it appends; the lemmas after them show that
  a loop appends exactly the concatenation of these, in order.
\<close>

text \<open>What \<open>validate_parent_links\<close> appends for one Division.\<close>

definition parent_report :: "string set \<Rightarrow> 'p Division \<Rightarrow> 'p error list" where
  "parent_report valid_ids d =
     (case parent d of
        None \<Rightarrow> [E_missing_parent (file d) (id' d)]
      | Some p \<Rightarrow>
          if p \<noteq> ''NO'' \<and> p \<notin> valid_ids then [E_dangling_parent (file d) (id' d) p] else [])"

text \<open>
  What one item of a relation list adds to \<open>ids\<close> and to the errors in
  \<open>normalize_relation\<close>, and the same for a whole field.
\<close>

fun item_ids :: "yaml \<Rightarrow> string list" where
  "item_ids (YStr s) = [s]"
| "item_ids (YMap kvs) = (case map_of kvs (YStr ''id'') of Some (YStr s) \<Rightarrow> [s] | _ \<Rightarrow> [])"
| "item_ids v = []"

fun item_errors :: "'p msg_context \<Rightarrow> yaml \<Rightarrow> 'p error list" where
  "item_errors ctx (YStr s) = []"
| "item_errors ctx (YMap kvs) =
     (case map_of kvs (YStr ''id'') of Some (YStr s) \<Rightarrow> [] | _ \<Rightarrow> [E_rel_dict ctx (YMap kvs)])"
| "item_errors ctx v = [E_rel_item ctx v]"

fun relation_ids :: "yaml \<Rightarrow> string list" where
  "relation_ids (YSeq xs) = concat (map item_ids xs)"
| "relation_ids v = []"

fun relation_errors :: "'p msg_context \<Rightarrow> yaml \<Rightarrow> 'p error list" where
  "relation_errors ctx YNull = []"
| "relation_errors ctx (YSeq xs) = concat (map (item_errors ctx) xs)"
| "relation_errors ctx v = [E_rel_type ctx v]"

text \<open>
  What \<open>check_relation\<close> appends for one target identifier, and for one source and
  field.
\<close>

definition target_report ::
  "(string \<times> 'p Division) list \<Rightarrow> 'p Division \<Rightarrow> string \<Rightarrow> string \<Rightarrow> string \<Rightarrow> 'p error list"
where
  "target_report divisions source field counterpart target_id =
     (case map_of divisions target_id of
        None \<Rightarrow> [E_unknown (file source) (id' source) field target_id]
      | Some target \<Rightarrow>
          relation_errors (RelCtx (file target) (id' target) counterpart)
            (dict_get (raw target) counterpart)
          @ (if id' source \<in> set (relation_ids (dict_get (raw target) counterpart)) then []
             else [E_mismatch (file source) (id' source) field target_id counterpart]))"

definition relation_report ::
  "(string \<times> 'p Division) list \<Rightarrow> 'p Division \<Rightarrow> string \<Rightarrow> string \<Rightarrow> 'p error list"
where
  "relation_report divisions source field counterpart =
     relation_errors (RelCtx (file source) (id' source) field) (dict_get (raw source) field)
     @ concat (map (target_report divisions source field counterpart)
                 (relation_ids (dict_get (raw source) field)))"

section \<open>Example data\<close>

text \<open>A Division of the file \<open>r.yaml\<close> with the given identifier, dates and block.\<close>

definition example_division ::
  "string \<Rightarrow> date option \<Rightarrow> date option \<Rightarrow> (yaml \<times> yaml) list \<Rightarrow> string Division"
where
  "example_division i f t r =
     \<lparr>id' = i, file = ''r.yaml'', parent = Some ''NO'', from_date = f, to_date = t,
      base_id = rsplit_colon_head i, raw = (YStr ''id'', YStr i) # r\<rparr>"

text \<open>
  Three records of base \<open>R\<close>: the first valid from 2000 to 2010, the second from 2001
  to 2002 and the third from 2003 to 2004, both inside the first.
\<close>

definition nested_model :: "(string \<times> string Division) list" where
  "nested_model =
     [(''R:1'', example_division ''R:1'' (Some (2000, 1, 1)) (Some (2010, 12, 31)) []),
      (''R:2'', example_division ''R:2'' (Some (2001, 1, 1)) (Some (2002, 12, 31)) []),
      (''R:3'', example_division ''R:3'' (Some (2003, 1, 1)) (Some (2004, 12, 31)) [])]"

text \<open>The same with the first record open-ended.\<close>

definition open_ended_model :: "(string \<times> string Division) list" where
  "open_ended_model =
     [(''R:1'', example_division ''R:1'' (Some (2000, 1, 1)) None []),
      (''R:2'', example_division ''R:2'' (Some (2001, 1, 1)) (Some (2002, 12, 31)) []),
      (''R:3'', example_division ''R:3'' (Some (2003, 1, 1)) (Some (2004, 12, 31)) [])]"

text \<open>
  \<open>A\<close> became \<open>B\<close> and \<open>C\<close>; \<open>B\<close> lists no predecessor and \<open>C\<close> is not in the
  model.
\<close>

definition lineage_model :: "(string \<times> string Division) list" where
  "lineage_model =
     [(''A'', example_division ''A'' None None [(YStr ''became'', YSeq [YStr ''B'', YStr ''C''])]),
      (''B'', example_division ''B'' None None [(YStr ''was'', YSeq [])])]"

text \<open>A Division whose parent is the string \<open>YES\<close>, alone in the model.\<close>

definition yes_model :: "(string \<times> string Division) list" where
  "yes_model = [(''X'', (example_division ''X'' None None [])\<lparr>parent := Some ''YES''\<rparr>)]"

section \<open>What each loop appends\<close>

lemma parent_links_loop_append:
  "parent_links_loop V ds errors = errors @ concat (map (parent_report V) ds)"
  by (induction ds arbitrary: errors) (auto simp: parent_report_def split: option.splits)

lemma in_concat_mapD: "e \<in> set (concat (map g xs)) \<Longrightarrow> \<exists>x\<in>set xs. e \<in> set (g x)"
  by auto

lemma in_concat_mapI: "x \<in> set xs \<Longrightarrow> e \<in> set (g x) \<Longrightarrow> e \<in> set (concat (map g xs))"
  by auto

lemma normalize_items_eq:
  "normalize_items xs ctx ids errors =
     (ids @ concat (map item_ids xs), errors @ concat (map (item_errors ctx) xs))"
  by (induction xs arbitrary: ids errors) (auto split: yaml.splits option.splits)


lemma normalize_relation_eq:
  "normalize_relation v ctx errors = (relation_ids v, errors @ relation_errors ctx v)"
  by (cases v) (simp_all add: normalize_items_eq)

lemma check_targets_eq:
  "check_targets divisions source field counterpart ids errors =
     errors @ concat (map (target_report divisions source field counterpart) ids)"
  by (induction ids arbitrary: errors)
     (auto simp: target_report_def normalize_relation_eq split: option.splits)

lemma check_relation_eq:
  "check_relation divisions source field counterpart errors =
     errors @ relation_report divisions source field counterpart"
  by (simp add: check_relation_def relation_report_def normalize_relation_eq check_targets_eq)

lemma lineage_loop_eq:
  "lineage_loop divisions ds errors =
     errors @ concat (map (\<lambda>d. relation_report divisions d ''was'' ''became''
                               @ relation_report divisions d ''became'' ''was'') ds)"
  by (induction ds arbitrary: errors) (simp_all add: check_relation_eq)

lemma validate_lineage_eq:
  "validate_lineage divisions errors =
     errors @ concat (map (\<lambda>d. relation_report divisions d ''was'' ''became''
                               @ relation_report divisions d ''became'' ''was'') (map snd divisions))"
  by (simp add: validate_lineage_def lineage_loop_eq)


lemma relation_ids_fst: "fst (normalize_relation v ctx errors) = relation_ids v"
  by (simp add: normalize_relation_eq)

lemma target_report_in_lineage:
  assumes src: "(k, source) \<in> set divisions"
    and fld: "(field, counterpart) = (''became'', ''was'') \<or> (field, counterpart) = (''was'', ''became'')"
    and tgt: "target \<in> set (relation_ids (dict_get (raw source) field))"
    and e: "e \<in> set (target_report divisions source field counterpart target)"
  shows "e \<in> set (validate_lineage divisions errors)"
proof -
  from tgt e have "e \<in> set (relation_report divisions source field counterpart)"
    by (auto simp: relation_report_def)
  with fld have "e \<in> set (relation_report divisions source ''was'' ''became''
                          @ relation_report divisions source ''became'' ''was'')"
    by auto
  moreover from src have "source \<in> set (map snd divisions)"
    by force
  ultimately show ?thesis
    unfolding validate_lineage_eq by auto
qed

lemma parent_report_map:
  "map (parent_report V) (map snd ds)
     = map (\<lambda>(k, d).
                 case parent d of
                   None \<Rightarrow> [E_missing_parent (file d) (id' d)]
                 | Some p \<Rightarrow>
                     if p \<noteq> ''NO'' \<and> p \<notin> V
                     then [E_dangling_parent (file d) (id' d) p]
                     else []) ds"
  by (induction ds) (auto simp: parent_report_def split: option.splits)

lemma walk_subset_append:
  "walk_subset base (xs @ ys) last_to errors =
     walk_subset base ys (fst (walk_subset base xs last_to errors))
       (snd (walk_subset base xs last_to errors))"
  by (induction xs arbitrary: last_to errors) simp_all

lemma walk_subset_mono:
  "e \<in> set errors \<Longrightarrow> e \<in> set (snd (walk_subset base ds last_to errors))"
proof (induction ds arbitrary: last_to errors)
  case Nil
  then show ?case by simp
next
  case (Cons d ds)
  have "e \<in> set (case (last_to, from_date d) of
          (Some l, Some f) \<Rightarrow>
            if f \<le> l then errors @ [E_overlap base (file d) (id' d) f l] else errors
        | _ \<Rightarrow> errors)"
    using Cons.prems by (simp split: option.splits)
  then show ?case
    by (simp only: walk_subset.simps Cons.IH)
qed

lemma parse_date_no_parent_error:
  "E_parent_type c v \<in> set (snd (parse_date fromiso x ctx errors)) \<Longrightarrow> E_parent_type c v \<in> set errors"
  by (cases x) (auto split: sum.splits)

section \<open>The claims\<close>

subsection \<open>The running end date of the overlap walk\<close>

text \<open>
  C1 as stated fails. In the walk over the sorted group of \<open>nested_model\<close> the running
  end date after \<open>R:2\<close> is the end of \<open>R:2\<close>, 2002-12-31, and not the later end of
  \<open>R:1\<close>, so \<open>R:3\<close>, which lies inside \<open>R:1\<close>, is not reported. In
  \<open>open_ended_model\<close> the record \<open>R:1\<close> has no end and \<open>R:3\<close>, which comes later in
  the group and has a start, is not reported either: only \<open>R:2\<close> is.
\<close>

theorem running_last_to_counterexample:
  "fst (walk_subset ''R'' (sort_key sort_key_of (map snd (take 2 nested_model))) None [])
     = Some (2002, 12, 31)
   \<and> Some (2002, 12, 31) \<noteq> Some (max (2010, 12, 31) (2002, 12, 31) :: date)
   \<and> validate_dates nested_model []
     = [E_overlap ''R'' ''r.yaml'' ''R:2'' (2001, 1, 1) (2010, 12, 31)]
   \<and> validate_dates open_ended_model []
     = [E_overlap ''R'' ''r.yaml'' ''R:2'' (2001, 1, 1) date_max]"
  by (simp add: nested_model_def open_ended_model_def example_division_def validate_dates_def
        sort_key_of_def date_max_def date_min_def rsplit_colon_head_def max_def)

text \<open>
  C1 as amended. After each Division of the walk is processed the running end date is
  that Division's own end date, or \<open>date.max\<close> when it has none, whatever the value was
  before. A Division with a start date that comes directly after a Division with no end
  date in the walk is reported as a timeline overlap against \<open>date.max\<close>.
\<close>

theorem running_last_to:
  "fst (walk_subset base (ds @ [d]) last_to errors)
     = Some (case to_date d of Some t \<Rightarrow> t | None \<Rightarrow> date_max)
   \<and>
   (to_date d1 = None \<and> from_date d2 = Some f \<and> f \<le> date_max \<longrightarrow>
      E_overlap base (file d2) (id' d2) f date_max
        \<in> set (snd (walk_subset base (pre @ d1 # d2 # post) last_to errors)))"
proof (intro conjI impI)
  show "fst (walk_subset base (ds @ [d]) last_to errors)
     = Some (case to_date d of Some t \<Rightarrow> t | None \<Rightarrow> date_max)"
    by (simp add: walk_subset_append split: option.splits)
next
  assume h: "to_date d1 = None \<and> from_date d2 = Some f \<and> f \<le> date_max"
  let ?l = "fst (walk_subset base pre last_to errors)"
  let ?e = "snd (walk_subset base pre last_to errors)"
  let ?e1 = "case (?l, from_date d1) of
          (Some l, Some f) \<Rightarrow>
            if f \<le> l then ?e @ [E_overlap base (file d1) (id' d1) f l] else ?e
        | _ \<Rightarrow> ?e"
  have "walk_subset base (pre @ d1 # d2 # post) last_to errors
          = walk_subset base post (case to_date d2 of Some t \<Rightarrow> Some t | None \<Rightarrow> Some date_max)
              (?e1 @ [E_overlap base (file d2) (id' d2) f date_max])"
    using h by (simp add: walk_subset_append)
  then show "E_overlap base (file d2) (id' d2) f date_max
        \<in> set (snd (walk_subset base (pre @ d1 # d2 # post) last_to errors))"
    by (simp add: walk_subset_mono)
qed

theorem running_last_to_witness:
  "fst (walk_subset ''R'' (map snd (take 1 open_ended_model) @ [snd (open_ended_model ! 1)]) None [])
     = Some (2002, 12, 31)
   \<and> to_date (snd (open_ended_model ! 0)) = None
   \<and> from_date (snd (open_ended_model ! 1)) = Some (2001, 1, 1)
   \<and> (2001, 1, 1) \<le> date_max
   \<and> E_overlap ''R'' ''r.yaml'' ''R:2'' (2001, 1, 1) date_max
       \<in> set (snd (walk_subset ''R''
                     ([] @ snd (open_ended_model ! 0) # snd (open_ended_model ! 1)
                        # [snd (open_ended_model ! 2)]) None []))"
proof -
  have h: "to_date (snd (open_ended_model ! 0)) = None
           \<and> from_date (snd (open_ended_model ! 1)) = Some (2001, 1, 1)
           \<and> (2001, 1, 1) \<le> date_max"
    by (simp add: open_ended_model_def example_division_def date_max_def)
  note th = running_last_to
    [of "''R''" "map snd (take 1 open_ended_model)" "snd (open_ended_model ! 1)" None "[]"
        "snd (open_ended_model ! 0)" "snd (open_ended_model ! 1)" "(2001, 1, 1)"
        "[]" "[snd (open_ended_model ! 2)]"]
  have "fst (walk_subset ''R'' (map snd (take 1 open_ended_model) @ [snd (open_ended_model ! 1)]) None [])
          = Some (2002, 12, 31)"
    using th [THEN conjunct1] by (simp add: open_ended_model_def example_division_def)
  moreover have "E_overlap ''R'' ''r.yaml'' ''R:2'' (2001, 1, 1) date_max
       \<in> set (snd (walk_subset ''R''
                     ([] @ snd (open_ended_model ! 0) # snd (open_ended_model ! 1)
                        # [snd (open_ended_model ! 2)]) None []))"
    using th [THEN conjunct2, THEN mp, OF h]
    by (simp add: open_ended_model_def example_division_def)
  ultimately show ?thesis using h by blast
qed

subsection \<open>Parent links\<close>

text \<open>
  C5. The parent-link validator keeps the errors it is given and appends, for every
  Division of the model in the model's order: exactly one missing-parent error when the
  parent is absent; exactly one dangling-parent error when the parent is present, is not
  \<open>NO\<close> and is no identifier of the model; and nothing when the parent is \<open>NO\<close> or
  an identifier of the model.
\<close>

theorem parent_link_report:
  "validate_parent_links divisions errors =
     errors @ concat (map (\<lambda>(k, d).
                 case parent d of
                   None \<Rightarrow> [E_missing_parent (file d) (id' d)]
                 | Some p \<Rightarrow>
                     if p \<noteq> ''NO'' \<and> p \<notin> fst ` set divisions
                     then [E_dangling_parent (file d) (id' d) p]
                     else []) divisions)"
  unfolding validate_parent_links_def parent_links_loop_append set_map
  by (simp only: parent_report_map)

subsection \<open>The overlap check on the two records of base R\<close>

text \<open>
  C6. A model that holds exactly the Divisions \<open>R:1\<close>, valid from 2000-01-01 to
  2005-12-31, and \<open>R:2\<close>, valid from 2005-06-01 with no end, gets exactly one new error
  from the date validator: the timeline overlap of \<open>R:2\<close>, for either order of the two
  in the model. When \<open>R:2\<close> starts on 2006-01-01 instead, the validator adds nothing.
\<close>

theorem overlap_concrete_case:
  "validate_dates
     [(''R:1'', \<lparr>id' = ''R:1'', file = f1, parent = p1, from_date = Some (2000, 1, 1),
                 to_date = Some (2005, 12, 31), base_id = ''R'', raw = r1\<rparr>),
      (''R:2'', \<lparr>id' = ''R:2'', file = f2, parent = p2, from_date = Some (2005, 6, 1),
                 to_date = None, base_id = ''R'', raw = r2\<rparr>)] errors
   = errors @ [E_overlap ''R'' f2 ''R:2'' (2005, 6, 1) (2005, 12, 31)]
   \<and>
   validate_dates
     [(''R:2'', \<lparr>id' = ''R:2'', file = f2, parent = p2, from_date = Some (2005, 6, 1),
                 to_date = None, base_id = ''R'', raw = r2\<rparr>),
      (''R:1'', \<lparr>id' = ''R:1'', file = f1, parent = p1, from_date = Some (2000, 1, 1),
                 to_date = Some (2005, 12, 31), base_id = ''R'', raw = r1\<rparr>)] errors
   = errors @ [E_overlap ''R'' f2 ''R:2'' (2005, 6, 1) (2005, 12, 31)]
   \<and>
   validate_dates
     [(''R:1'', \<lparr>id' = ''R:1'', file = f1, parent = p1, from_date = Some (2000, 1, 1),
                 to_date = Some (2005, 12, 31), base_id = ''R'', raw = r1\<rparr>),
      (''R:2'', \<lparr>id' = ''R:2'', file = f2, parent = p2, from_date = Some (2006, 1, 1),
                 to_date = None, base_id = ''R'', raw = r2\<rparr>)] errors
   = errors
   \<and>
   validate_dates
     [(''R:2'', \<lparr>id' = ''R:2'', file = f2, parent = p2, from_date = Some (2006, 1, 1),
                 to_date = None, base_id = ''R'', raw = r2\<rparr>),
      (''R:1'', \<lparr>id' = ''R:1'', file = f1, parent = p1, from_date = Some (2000, 1, 1),
                 to_date = Some (2005, 12, 31), base_id = ''R'', raw = r1\<rparr>)] errors
   = errors"
  by (simp add: validate_dates_def sort_key_of_def date_max_def date_min_def)

subsection \<open>Lineage reciprocity\<close>

text \<open>
  C7. For every Division \<open>source\<close> of the model and every identifier \<open>target\<close> of
  its \<open>became\<close> list, the lineage validator records an unknown-id error when
  \<open>target\<close> is not in the model, and a mismatch error when it is and its \<open>was\<close> list
  does not contain the identifier of \<open>source\<close>; the same holds with \<open>was\<close> and
  \<open>became\<close> exchanged. With \<open>A.became = [B]\<close> and \<open>B.was = []\<close> the validator
  appends exactly one error, the mismatch of the \<open>became\<close> direction; with
  \<open>B.was = [A]\<close> it appends none.
\<close>

theorem lineage_reciprocity:
  "(\<forall>k source field counterpart target ctx errs.
      (k, source) \<in> set divisions \<and>
      ((field, counterpart) = (''became'', ''was'') \<or> (field, counterpart) = (''was'', ''became'')) \<and>
      target \<in> set (fst (normalize_relation (dict_get (raw source) field) ctx errs)) \<longrightarrow>
      (map_of divisions target = None \<longrightarrow>
         E_unknown (file source) (id' source) field target
           \<in> set (validate_lineage divisions errors)) \<and>
      (\<forall>other ctx' errs'.
         map_of divisions target = Some other \<and>
         id' source \<notin> set (fst (normalize_relation (dict_get (raw other) counterpart) ctx' errs')) \<longrightarrow>
         E_mismatch (file source) (id' source) field target counterpart
           \<in> set (validate_lineage divisions errors)))
   \<and>
   validate_lineage
     [(''A'', \<lparr>id' = ''A'', file = fa, parent = pa, from_date = fda, to_date = tda, base_id = ba,
               raw = [(YStr ''id'', YStr ''A''), (YStr ''became'', YSeq [YStr ''B''])]\<rparr>),
      (''B'', \<lparr>id' = ''B'', file = fb, parent = pb, from_date = fdb, to_date = tdb, base_id = bb,
               raw = [(YStr ''id'', YStr ''B''), (YStr ''was'', YSeq [])]\<rparr>)] errors
   = errors @ [E_mismatch fa ''A'' ''became'' ''B'' ''was'']
   \<and>
   validate_lineage
     [(''A'', \<lparr>id' = ''A'', file = fa, parent = pa, from_date = fda, to_date = tda, base_id = ba,
               raw = [(YStr ''id'', YStr ''A''), (YStr ''became'', YSeq [YStr ''B''])]\<rparr>),
      (''B'', \<lparr>id' = ''B'', file = fb, parent = pb, from_date = fdb, to_date = tdb, base_id = bb,
               raw = [(YStr ''id'', YStr ''B''), (YStr ''was'', YSeq [YStr ''A''])]\<rparr>)] errors
   = errors"
proof (intro conjI allI impI)
  fix k source field counterpart target ctx errs
  assume h: "(k, source) \<in> set divisions \<and>
      ((field, counterpart) = (''became'', ''was'') \<or> (field, counterpart) = (''was'', ''became'')) \<and>
      target \<in> set (fst (normalize_relation (dict_get (raw source) field) ctx errs))"
  then have tgt: "target \<in> set (relation_ids (dict_get (raw source) field))"
    by (simp add: relation_ids_fst)
  {
    assume "map_of divisions target = None"
    then have "E_unknown (file source) (id' source) field target
                 \<in> set (target_report divisions source field counterpart target)"
      by (simp add: target_report_def)
    with h tgt show "E_unknown (file source) (id' source) field target
                 \<in> set (validate_lineage divisions errors)"
      by (blast intro: target_report_in_lineage)
  }
  {
    fix other ctx' errs'
    assume "map_of divisions target = Some other \<and>
         id' source \<notin> set (fst (normalize_relation (dict_get (raw other) counterpart) ctx' errs'))"
    then have "E_mismatch (file source) (id' source) field target counterpart
                 \<in> set (target_report divisions source field counterpart target)"
      by (simp add: target_report_def relation_ids_fst)
    with h tgt show "E_mismatch (file source) (id' source) field target counterpart
                 \<in> set (validate_lineage divisions errors)"
      by (blast intro: target_report_in_lineage)
  }
qed (simp_all add: validate_lineage_def check_relation_def dict_get_def)

theorem lineage_reciprocity_witness:
  "E_unknown ''r.yaml'' ''A'' ''became'' ''C'' \<in> set (validate_lineage lineage_model [])
   \<and> E_mismatch ''r.yaml'' ''A'' ''became'' ''B'' ''was'' \<in> set (validate_lineage lineage_model [])"
proof -
  let ?a = "example_division ''A'' None None [(YStr ''became'', YSeq [YStr ''B'', YStr ''C''])]"
  let ?b = "example_division ''B'' None None [(YStr ''was'', YSeq [])]"
  let ?ctx = "RelCtx ''r.yaml'' ''A'' ''became''"
  have src: "(''A'', ?a) \<in> set lineage_model"
    by (simp add: lineage_model_def)
  have ids: "fst (normalize_relation (dict_get (raw ?a) ''became'') ?ctx []) = [''B'', ''C'']"
    by (simp add: example_division_def dict_get_def)
  have fa: "file ?a = ''r.yaml''" and ia: "id' ?a = ''A''"
    by (simp_all add: example_division_def)
  note th = lineage_reciprocity [where divisions = lineage_model and errors = "[]", THEN conjunct1]
  have hc: "(''A'', ?a) \<in> set lineage_model \<and>
      ((''became'', ''was'') = (''became'', ''was'') \<or> (''became'', ''was'') = (''was'', ''became'')) \<and>
      ''C'' \<in> set (fst (normalize_relation (dict_get (raw ?a) ''became'') ?ctx []))"
    using src ids by simp
  have hb: "(''A'', ?a) \<in> set lineage_model \<and>
      ((''became'', ''was'') = (''became'', ''was'') \<or> (''became'', ''was'') = (''was'', ''became'')) \<and>
      ''B'' \<in> set (fst (normalize_relation (dict_get (raw ?a) ''became'') ?ctx []))"
    using src ids by simp
  have none: "map_of lineage_model ''C'' = None"
    by (simp add: lineage_model_def)
  have some: "map_of lineage_model ''B'' = Some ?b \<and>
      id' ?a \<notin> set (fst (normalize_relation (dict_get (raw ?b) ''was'') (RelCtx ''r.yaml'' ''B'' ''was'') []))"
    by (simp add: lineage_model_def example_division_def dict_get_def)
  from th [rule_format, OF hc, THEN conjunct1, rule_format, OF none]
  have "E_unknown ''r.yaml'' ''A'' ''became'' ''C'' \<in> set (validate_lineage lineage_model [])"
    by (simp only: fa ia)
  moreover from th [rule_format, OF hb, THEN conjunct2, rule_format, OF some]
  have "E_mismatch ''r.yaml'' ''A'' ''became'' ''B'' ''was'' \<in> set (validate_lineage lineage_model [])"
    by (simp only: fa ia)
  ultimately show ?thesis by blast
qed

subsection \<open>A parent given as the boolean true\<close>

text \<open>
  C10. \<open>normalize_parent\<close> turns the boolean true into the string \<open>YES\<close> and
  records no error; the loader stores \<open>YES\<close> as the parent of such a record with no
  parent error; and the parent-link validator reports a Division whose parent is
  \<open>YES\<close> as dangling exactly when no Division of the model has the identifier
  \<open>YES\<close>.
\<close>

theorem boolean_true_parent:
  "normalize_parent (YBool True) ctx errors = (Some ''YES'', errors)
   \<and>
   (\<forall>kvs div_id.
      dict_get kvs ''id'' = YStr div_id \<and> dict_get kvs ''parent'' = YBool True \<and>
      map_of divisions div_id = None \<longrightarrow>
      (\<exists>d errors'.
         collect_blocks fromiso yaml_path [YMap kvs] divisions errors
           = Inr (divisions @ [(div_id, d)], errors') \<and>
         id' d = div_id \<and> parent d = Some ''YES'' \<and>
         (\<forall>c v. E_parent_type c v \<in> set errors' \<longrightarrow> E_parent_type c v \<in> set errors)))
   \<and>
   (\<forall>k d.
      (k, d) \<in> set divisions \<and> parent d = Some ''YES'' \<longrightarrow>
      (E_dangling_parent (file d) (id' d) ''YES''
         \<in> set (drop (length errors) (validate_parent_links divisions errors)))
      = (''YES'' \<notin> fst ` set divisions))"
proof (intro conjI allI impI)
  show "normalize_parent (YBool True) ctx errors = (Some ''YES'', errors)"
    by simp
next
  fix kvs div_id
  assume h: "dict_get kvs ''id'' = YStr div_id \<and> dict_get kvs ''parent'' = YBool True \<and>
      map_of divisions div_id = None"
  obtain fd e1 where p1: "parse_date fromiso (dict_get kvs ''from'') (DivCtx yaml_path div_id) errors = (fd, e1)"
    by (cases "parse_date fromiso (dict_get kvs ''from'') (DivCtx yaml_path div_id) errors")
  obtain td e2 where p2: "parse_date fromiso (dict_get kvs ''to'') (DivCtx yaml_path div_id) e1 = (td, e2)"
    by (cases "parse_date fromiso (dict_get kvs ''to'') (DivCtx yaml_path div_id) e1")
  have keep: "E_parent_type c v \<in> set e2 \<Longrightarrow> E_parent_type c v \<in> set errors" for c v
    using parse_date_no_parent_error[of c v fromiso "dict_get kvs ''to''" "DivCtx yaml_path div_id" e1]
      parse_date_no_parent_error[of c v fromiso "dict_get kvs ''from''" "DivCtx yaml_path div_id" errors]
    by (simp add: p1 p2)
  have "collect_blocks fromiso yaml_path [YMap kvs] divisions errors
          = Inr (divisions @
                   [(div_id, \<lparr>id' = div_id, file = yaml_path, parent = Some ''YES'', from_date = fd,
                              to_date = td, base_id = rsplit_colon_head div_id, raw = kvs\<rparr>)], e2)"
    using h by (simp add: p1 p2)
  with keep show "\<exists>d errors'.
         collect_blocks fromiso yaml_path [YMap kvs] divisions errors
           = Inr (divisions @ [(div_id, d)], errors') \<and>
         id' d = div_id \<and> parent d = Some ''YES'' \<and>
         (\<forall>c v. E_parent_type c v \<in> set errors' \<longrightarrow> E_parent_type c v \<in> set errors)"
    by auto
next
  fix k d
  assume h: "(k, d) \<in> set divisions \<and> parent d = Some ''YES''"
  let ?V = "fst ` set divisions"
  let ?e = "E_dangling_parent (file d) (id' d) ''YES''"
  have new: "drop (length errors) (validate_parent_links divisions errors)
               = concat (map (parent_report ?V) (map snd divisions))"
    by (simp add: validate_parent_links_def parent_links_loop_append)
  from h have d_in: "d \<in> set (map snd divisions)" by force
  show "(?e \<in> set (drop (length errors) (validate_parent_links divisions errors)))
      = (''YES'' \<notin> ?V)"
  proof
    assume "?e \<in> set (drop (length errors) (validate_parent_links divisions errors))"
    then obtain d' where "?e \<in> set (parent_report ?V d')"
      unfolding new using in_concat_mapD by fast
    then show "''YES'' \<notin> ?V"
      by (auto simp: parent_report_def split: option.splits if_splits)
  next
    assume "''YES'' \<notin> ?V"
    with h have "?e \<in> set (parent_report ?V d)" by (simp add: parent_report_def)
    with d_in show "?e \<in> set (drop (length errors) (validate_parent_links divisions errors))"
      unfolding new by (rule in_concat_mapI)
  qed
qed

theorem boolean_true_parent_witness:
  "(\<exists>d errors'.
      collect_blocks (\<lambda>s. Inl ''Invalid isoformat string'') ''r.yaml''
        [YMap [(YStr ''id'', YStr ''X''), (YStr ''parent'', YBool True)]] [] []
        = Inr ([(''X'', d)], errors') \<and> id' d = ''X'' \<and> parent d = Some ''YES'')
   \<and> E_dangling_parent ''r.yaml'' ''X'' ''YES'' \<in> set (validate_parent_links yes_model [])"
proof -
  let ?kvs = "[(YStr ''id'', YStr ''X''), (YStr ''parent'', YBool True)]"
  let ?x = "(example_division ''X'' None None [])\<lparr>parent := Some ''YES''\<rparr>"
  note th = boolean_true_parent
    [where divisions = "[]" and errors = "[]" and yaml_path = "''r.yaml''"
       and fromiso = "\<lambda>s. Inl ''Invalid isoformat string''"]
  have h2: "dict_get ?kvs ''id'' = YStr ''X'' \<and> dict_get ?kvs ''parent'' = YBool True \<and>
      map_of ([] :: (string \<times> string Division) list) ''X'' = None"
    by (simp add: dict_get_def)
  from th [THEN conjunct2, THEN conjunct1, rule_format, OF h2]
  have a: "\<exists>d errors'.
      collect_blocks (\<lambda>s. Inl ''Invalid isoformat string'') ''r.yaml'' [YMap ?kvs] [] []
        = Inr ([(''X'', d)], errors') \<and> id' d = ''X'' \<and> parent d = Some ''YES''"
    by auto
  have h3: "(''X'', ?x) \<in> set yes_model \<and> parent ?x = Some ''YES''"
    by (simp add: yes_model_def)
  have fx: "file ?x = ''r.yaml''" and ix: "id' ?x = ''X''"
    by (simp_all add: example_division_def)
  have "''YES'' \<notin> fst ` set yes_model"
    by (simp add: yes_model_def)
  with boolean_true_parent
         [where divisions = yes_model and errors = "[]", THEN conjunct2, THEN conjunct2,
          rule_format, OF h3]
  have "E_dangling_parent ''r.yaml'' ''X'' ''YES'' \<in> set (validate_parent_links yes_model [])"
    by (simp add: fx ix)
  with a show ?thesis by blast
qed

end
